theory Spec2Isabelle
  imports Main "HOL-Library.Sublist"
begin

section \<open>Status translation: the callback \<open>onEvent\<close> of \<open>src/index.ts\<close>\<close>

text \<open>
  JavaScript strings are modelled as \<^typ>\<open>string\<close>. The event names and the pattern
  of the source are ASCII, and the only string operations used are strict equality and a
  search for a literal, so the element type of the strings plays no role.
\<close>

text \<open>
  \<open>/git:add:files/.test(event)\<close>: the regular expression is a plain sequence of literal
  characters without anchors or flags, so \<open>test\<close> succeeds when the literal matches at
  some start position of the subject. \<open>literal_at\<close> is the match attempt at the current
  position, \<open>regex_test\<close> the scan over all start positions (the last attempt is at the
  end of the subject).
\<close>

fun literal_at :: "string \<Rightarrow> string \<Rightarrow> bool" where
  "literal_at [] s = True"
| "literal_at (p # ps) [] = False"
| "literal_at (p # ps) (c # cs) = (p = c \<and> literal_at ps cs)"

fun regex_test :: "string \<Rightarrow> string \<Rightarrow> bool" where
  "regex_test pat [] = literal_at pat []"
| "regex_test pat (c # cs) = (literal_at pat (c # cs) \<or> regex_test pat cs)"

text \<open>The status widget: only its \<open>status\<close> property is written by the callback.\<close>

record StatusWidget =
  status :: string

text \<open>
  The \<open>switch\<close> statement of \<open>onEvent\<close> (lines 145 to 186): the value of the local
  variable \<open>status\<close> when the statement is left. The cases are tried in the order of the
  source, with strict string equality; the \<open>default\<close> branch holds the pattern test.
\<close>

definition onEvent_status :: "string \<Rightarrow> string" where
  "onEvent_status event =
     (if event = ''git:checkout'' then ''checking out...''
      else if event = ''git:clone'' then ''cloning repository...''
      else if event = ''git:commit:create'' then ''committing changes...''
      else if event = ''git:commit:revert'' then ''reverting changes...''
      else if event = ''git:idle'' then ''idle''
      else if event = ''git:init'' then ''initializing repository...''
      else if event = ''git:pull'' then ''pulling changes...''
      else if event = ''git:pushing'' then ''pushing changes...''
      else if event = ''git:refresh'' then ''refreshing...''
      else if event = ''git:reset:changes'' then ''resetting changes...''
      else if event = ''git:reset:hard'' then ''discarding changes...''
      else if regex_test ''git:add:files'' event then ''adding files...''
      else ''working...'')"

text \<open>
  \<open>onEvent(model, event)\<close>: the first argument is not used; line 187 stores the text in
  the status widget.
\<close>

definition onEvent :: "StatusWidget \<Rightarrow> string \<Rightarrow> StatusWidget" where
  "onEvent statusWidget event = statusWidget\<lparr>status := onEvent_status event\<rparr>"

text \<open>The eleven event names that have a \<open>case\<close> label of their own.\<close>

definition case_labels :: "string list" where
  "case_labels =
     [''git:checkout'', ''git:clone'', ''git:commit:create'', ''git:commit:revert'',
      ''git:idle'', ''git:init'', ''git:pull'', ''git:pushing'', ''git:refresh'',
      ''git:reset:changes'', ''git:reset:hard'']"

section \<open>Repository-path binding: the two handlers registered by \<open>activate\<close>\<close>

text \<open>
  \<open>IChangedArgs\<close> of \<open>@jupyterlab/coreutils\<close>, at type string: the payload of a
  \<open>pathChanged\<close> notification. The handler reads \<open>newValue\<close> only.
\<close>

record IChangedArgs =
  oldValue :: string
  newValue :: string

text \<open>
  Modelled from the spec: the directory browser's model (\<open>FileBrowserModel\<close> of
  \<open>@jupyterlab/filebrowser\<close>, not among the sources). Of its state only the current
  directory matters here, the property \<open>filebrowser.model.path\<close> that line 88 reads.
\<close>

record FileBrowserModel =
  path :: string

text \<open>
  Modelled from the spec: the property \<open>pathRepository\<close> of \<open>GitExtension\<close> (module
  \<open>./model\<close>, not among the sources), the RepositoryPath of section 3. It is the
  readable and writable string of section 6: absent until it is first assigned, and an
  assignment stores the assigned value.
\<close>

record GitExtension =
  pathRepository :: "string option"

text \<open>The two objects the handlers of \<open>activate\<close> touch.\<close>

record app =
  filebrowser_model :: FileBrowserModel
  gitExtension :: GitExtension

text \<open>Lines 87 to 89: the callback of \<open>Promise.all([app.restored, filebrowser.model.restored])\<close>.\<close>

definition on_restored :: "app \<Rightarrow> app" where
  "on_restored a =
     a\<lparr>gitExtension := (gitExtension a)\<lparr>pathRepository := Some (path (filebrowser_model a))\<rparr>\<rparr>"

text \<open>Lines 92 to 96: the slot connected to \<open>filebrowser.model.pathChanged\<close>.\<close>

definition on_pathChanged :: "app \<Rightarrow> IChangedArgs \<Rightarrow> app" where
  "on_pathChanged a change =
     a\<lparr>gitExtension := (gitExtension a)\<lparr>pathRepository := Some (newValue change)\<rparr>\<rparr>"

text \<open>
  Modelled from the spec: a change of directory in the browser (a method of
  \<open>FileBrowserModel\<close>, not among the sources). By sections 4.2 and 6 the notification
  \<open>pathChanged\<close> fires when the browser's current directory changes, and carries the old
  and the new directory: the browser's \<open>path\<close> is the new directory when the connected
  slot runs.
\<close>

definition cd :: "app \<Rightarrow> string \<Rightarrow> app" where
  "cd a d =
     (let change = \<lparr>oldValue = path (filebrowser_model a), newValue = d\<rparr>;
          a' = a\<lparr>filebrowser_model := (filebrowser_model a)\<lparr>path := d\<rparr>\<rparr>
      in on_pathChanged a' change)"

text \<open>
  What reaches the binder, in the order of arrival: the startup-restore signal, or a change
  of the browser's directory to the given one. Both handlers run to completion before the
  next signal is delivered (one thread, no suspension inside a handler).
\<close>

datatype signal = Restored | PathChanged string

fun deliver :: "app \<Rightarrow> signal \<Rightarrow> app" where
  "deliver a Restored = on_restored a"
| "deliver a (PathChanged d) = cd a d"

fun process :: "app \<Rightarrow> signal list \<Rightarrow> app" where
  "process a [] = a"
| "process a (s # ss) = process (deliver a s) ss"

text \<open>The directories \<open>d1, ..., dn\<close> of the change notifications among the signals.\<close>

fun directories :: "signal list \<Rightarrow> string list" where
  "directories [] = []"
| "directories (Restored # ss) = directories ss"
| "directories (PathChanged d # ss) = d # directories ss"

section \<open>The component \<open>ResetDeleteSingleCommit\<close>\<close>

subsection \<open>Properties, state and collaborators\<close>

text \<open>The property \<open>action: 'reset' | 'delete'\<close>.\<close>

datatype action = Reset | Delete

text \<open>
  \<open>Git.ISingleCommitInfo\<close> (declared in \<open>../tokens\<close>): the two fields the component
  reads, both strings.
\<close>

record ISingleCommitInfo =
  commit :: string
  commit_msg :: string

text \<open>
  \<open>IResetDeleteProps\<close>. The field \<open>commit_info\<close> is \<open>props.commit\<close> (renamed, since the
  commit record has a field \<open>commit\<close> of its own). The properties \<open>model\<close> and \<open>onClose\<close>
  are collaborators: the calls made on them are recorded, see \<open>call\<close> below.
\<close>

record IResetDeleteProps =
  action :: action
  commit_info :: ISingleCommitInfo

record IResetDeleteState =
  message :: string
  disabled :: bool

text \<open>The object literal handed to \<open>setState\<close>: a field is present or not.\<close>

record state_update =
  upd_message :: "string option"
  upd_disabled :: "bool option"

text \<open>
  The calls a handler makes on its collaborators: React's \<open>setState\<close>, the two mutating
  operations of the repository service, the error surface \<open>showErrorMessage(title, detail)\<close>
  and the close callback. \<open>DefaultMessage\<close> records an invocation of the private method
  \<open>_defaultMessage\<close>, so that "is never invoked" can be stated.
\<close>

datatype call =
    SetState state_update
  | ResetToCommit string
  | DeleteCommit string string
  | ShowErrorMessage string string
  | OnClose
  | DefaultMessage

text \<open>A component instance: its properties, its state, and the calls made so far, oldest first.\<close>

record component =
  props :: IResetDeleteProps
  state :: IResetDeleteState
  calls :: "call list"

text \<open>Lines 68 to 74.\<close>

definition constructor :: "IResetDeleteProps \<Rightarrow> component" where
  "constructor p = \<lparr>props = p, state = \<lparr>message = [], disabled = False\<rparr>, calls = []\<rparr>"

definition record_call :: "component \<Rightarrow> call \<Rightarrow> component" where
  "record_call c e = c\<lparr>calls := calls c @ [e]\<rparr>"

definition merge_state :: "IResetDeleteState \<Rightarrow> state_update \<Rightarrow> IResetDeleteState" where
  "merge_state s u =
     \<lparr>message = (case upd_message u of None \<Rightarrow> message s | Some m \<Rightarrow> m),
      disabled = (case upd_disabled u of None \<Rightarrow> disabled s | Some b \<Rightarrow> b)\<rparr>"

text \<open>
  \<open>setState\<close> is inherited from \<open>React.Component\<close>, which is not among the sources. All
  three handlers are React event handlers (\<open>onClick\<close>, \<open>onChange\<close>, lines 95, 102 and 109),
  and inside an event handler React does not touch \<open>this.state\<close> at the call: the update is
  queued, \<open>this.state\<close> keeps its value while the handler runs, and the queued updates are
  merged, in order, once the handler has returned to React. An \<open>async\<close> handler returns at
  its first \<open>await\<close>.

  A running handler is therefore the instance together with the queue of its updates.
  \<open>enter\<close> starts a handler with an empty queue; \<open>leave\<close> is the return to React.
\<close>

record running =
  comp :: component
  queued :: "state_update list"

definition enter :: "component \<Rightarrow> running" where
  "enter c = \<lparr>comp = c, queued = []\<rparr>"

definition leave :: "running \<Rightarrow> component" where
  "leave r = (comp r)\<lparr>state := foldl merge_state (state (comp r)) (queued r)\<rparr>"

definition setState :: "running \<Rightarrow> state_update \<Rightarrow> running" where
  "setState r u = \<lparr>comp = record_call (comp r) (SetState u), queued = queued r @ [u]\<rparr>"

text \<open>A step of a running handler that leaves the queue alone.\<close>

definition within :: "(component \<Rightarrow> component) \<Rightarrow> running \<Rightarrow> running" where
  "within f r = r\<lparr>comp := f (comp r)\<rparr>"

text \<open>
  The close callback \<open>props.onClose()\<close> and the error surface: notifications that return
  normally (section 6).
\<close>

definition onClose :: "component \<Rightarrow> component" where
  "onClose c = record_call c OnClose"

definition showErrorMessage :: "component \<Rightarrow> string \<Rightarrow> string \<Rightarrow> component" where
  "showErrorMessage c title detail = record_call c (ShowErrorMessage title detail)"

subsection \<open>The default commit message (lines 183 to 188)\<close>

definition newline :: char where
  "newline = CHR 0x0A"

definition dquote :: char where
  "dquote = CHR 0x22"

text \<open>
  \<open>String.prototype.split\<close> with a separator of one character: \<open>cur\<close> is the piece being
  read. The result is never empty.
\<close>

fun split_from :: "char \<Rightarrow> string \<Rightarrow> string \<Rightarrow> string list" where
  "split_from sep cur [] = [cur]"
| "split_from sep cur (c # cs) =
     (if c = sep then cur # split_from sep [] cs else split_from sep (cur @ [c]) cs)"

definition split_str :: "char \<Rightarrow> string \<Rightarrow> string list" where
  "split_str sep s = split_from sep [] s"

text \<open>
  Element \<open>[0]\<close> of an array of strings as a template literal renders it: an absent
  element is \<open>undefined\<close> and is rendered as that word.
\<close>

definition element0 :: "string list \<Rightarrow> string" where
  "element0 pieces = (case pieces of [] \<Rightarrow> ''undefined'' | x # _ \<Rightarrow> x)"

text \<open>\<open>_defaultMessage\<close> (an Isabelle name cannot start with an underscore).\<close>

definition defaultMessage :: "component \<Rightarrow> string" where
  "defaultMessage c =
     (let summary = element0 (split_str newline (commit_msg (commit_info (props c))))
      in ''Revert '' @ [dquote] @ summary @ [dquote] @ [newline, newline]
         @ ''This reverts commit '' @ commit (commit_info (props c)))"

definition call_defaultMessage :: "component \<Rightarrow> string \<times> component" where
  "call_defaultMessage c = (defaultMessage c, record_call c DefaultMessage)"

subsection \<open>The handlers\<close>

text \<open>
  Each handler comes in two parts: the code of the source, running with its queue of
  updates (suffix \<open>_run\<close>), and the handling of one event by React, which calls that code and
  merges the queued updates when it returns.
\<close>

text \<open>\<open>_onCancelClick\<close>, lines 124 to 130.\<close>

definition onCancelClick_run :: "running \<Rightarrow> running" where
  "onCancelClick_run r =
     within onClose (setState r \<lparr>upd_message = Some [], upd_disabled = Some True\<rparr>)"

definition onCancelClick :: "component \<Rightarrow> component" where
  "onCancelClick c = leave (onCancelClick_run (enter c))"

text \<open>\<open>_onMessageChange\<close>, lines 137 to 141; \<open>v\<close> is \<open>event.target.value\<close>.\<close>

definition onMessageChange_run :: "running \<Rightarrow> string \<Rightarrow> running" where
  "onMessageChange_run r v = setState r \<lparr>upd_message = Some v, upd_disabled = None\<rparr>"

definition onMessageChange :: "component \<Rightarrow> string \<Rightarrow> component" where
  "onMessageChange c v = leave (onMessageChange_run (enter c) v)"

text \<open>
  The reason of a rejection, as far as the handler uses it: the template literal converts
  it to a string, \<open>${err}\<close>. The conversion either yields a text (a string yields itself,
  an \<open>Error\<close> its name and message) or throws (a \<open>Symbol\<close>, an object without a
  usable \<open>toString\<close>); \<open>Unconvertible\<close> carries the exception thrown. The reason is typed
  \<open>any\<close>: nothing in the source excludes either kind.
\<close>

datatype reason = Converts string | Unconvertible string

text \<open>The conversion, with the exception on the left.\<close>

definition template_text :: "reason \<Rightarrow> string + string" where
  "template_text err = (case err of Converts t \<Rightarrow> Inr t | Unconvertible e \<Rightarrow> Inl e)"

text \<open>
  How the promise returned by the repository service settles. An exception thrown by the
  service call itself is caught by the same \<open>catch\<close> and is a rejection here.
\<close>

datatype settled = Resolved | Rejected reason

text \<open>How the promise returned by an \<open>async\<close> handler settles.\<close>

datatype completion = Fulfilled | Thrown string

text \<open>
  \<open>_onSubmitClick\<close> is an \<open>async\<close> function with one \<open>await\<close> on each branch. The frame
  holds what the suspended function keeps across the \<open>await\<close>: the constant \<open>shortCommit\<close>
  and the branch it is in.
\<close>

record frame =
  shortCommit :: string
  branch :: action

text \<open>
  Lines 149 to 155 and 163 to 167: everything up to the \<open>await\<close>, the call on the
  repository service being the last step. \<open>slice(0, 7)\<close> keeps the first seven characters,
  or the whole id when it is shorter. The argument of \<open>deleteCommit\<close> is
  \<open>this.state.message || this._defaultMessage()\<close>: the method is invoked only when the
  message is the empty string (the only falsy string), and before the service is called.
\<close>

definition onSubmitClick_run :: "running \<Rightarrow> frame \<times> running" where
  "onSubmitClick_run r =
     (let short = take 7 (commit (commit_info (props (comp r))));
          r1 = setState r \<lparr>upd_message = None, upd_disabled = Some True\<rparr>
      in if action (props (comp r1)) = Reset then
           (\<lparr>shortCommit = short, branch = Reset\<rparr>,
            within (\<lambda>c. record_call c (ResetToCommit (commit (commit_info (props c))))) r1)
         else
           (let (m, c2) = (if message (state (comp r1)) \<noteq> []
                           then (message (state (comp r1)), comp r1)
                           else call_defaultMessage (comp r1))
            in (\<lparr>shortCommit = short, branch = Delete\<rparr>,
                r1\<lparr>comp := record_call c2 (DeleteCommit m (commit (commit_info (props c2))))\<rparr>)))"

text \<open>The click as React handles it: the handler returns at its \<open>await\<close>.\<close>

definition onSubmitClick_start :: "component \<Rightarrow> frame \<times> component" where
  "onSubmitClick_start c = (let (f, r) = onSubmitClick_run (enter c) in (f, leave r))"

text \<open>
  Lines 156 to 161, 168 to 173 and 175: the rest of the function once the promise has
  settled. The template literal is evaluated inside the \<open>catch\<close> block, before
  \<open>showErrorMessage\<close> is called: when the conversion of the reason throws, the exception
  leaves the \<open>catch\<close> block, neither \<open>showErrorMessage\<close> nor line 175 is reached, and the
  handler's own promise is rejected.
\<close>

definition onSubmitClick_resume :: "frame \<Rightarrow> component \<Rightarrow> settled \<Rightarrow> completion \<times> component" where
  "onSubmitClick_resume f c r =
     (case r of
        Resolved \<Rightarrow> (Fulfilled, onClose c)
      | Rejected err \<Rightarrow>
          (case template_text err of
             Inl exn \<Rightarrow> (Thrown exn, c)
           | Inr text \<Rightarrow>
               (let c' = (case branch f of
                            Reset \<Rightarrow> showErrorMessage c ''Error Removing Changes''
                              (''Failed to discard changes after '' @ shortCommit f @ '': '' @ text)
                          | Delete \<Rightarrow> showErrorMessage c ''Error Reverting Changes''
                              (''Failed to revert '' @ shortCommit f @ '': '' @ text))
                in (Fulfilled, onClose c'))))"

text \<open>
  \<open>_onSubmitClick\<close> from the click to the settling of its own promise, with no other
  handler running while it is suspended.
\<close>

definition onSubmitClick :: "component \<Rightarrow> settled \<Rightarrow> completion \<times> component" where
  "onSubmitClick c r = (let (f, c') = onSubmitClick_start c in onSubmitClick_resume f c' r)"

subsection \<open>Observing a run\<close>

text \<open>The calls made between two moments of the same instance.\<close>

definition new_calls :: "component \<Rightarrow> component \<Rightarrow> call list" where
  "new_calls before after = drop (length (calls before)) (calls after)"

fun is_service_call :: "call \<Rightarrow> bool" where
  "is_service_call (ResetToCommit _) = True"
| "is_service_call (DeleteCommit _ _) = True"
| "is_service_call _ = False"

text \<open>
  An instance together with the frames of its suspended submissions. What can happen to it:
  a click on either button, an edit of the message, or the settling of the promise a
  suspended submission waits for (the oldest first); settling with nothing suspended is
  not possible and changes nothing.
\<close>

datatype happening = CancelClick | MessageChange string | SubmitClick | Settle settled

fun happen :: "component \<times> frame list \<Rightarrow> happening \<Rightarrow> component \<times> frame list" where
  "happen (c, fs) CancelClick = (onCancelClick c, fs)"
| "happen (c, fs) (MessageChange v) = (onMessageChange c v, fs)"
| "happen (c, fs) SubmitClick = (let (f, c') = onSubmitClick_start c in (c', fs @ [f]))"
| "happen (c, []) (Settle r) = (c, [])"
| "happen (c, f # fs) (Settle r) = (snd (onSubmitClick_resume f c r), fs)"

fun happen_all :: "component \<times> frame list \<Rightarrow> happening list \<Rightarrow> component \<times> frame list" where
  "happen_all cf [] = cf"
| "happen_all cf (h # hs) = happen_all (happen cf h) hs"

subsection \<open>Sample data\<close>

text \<open>
  The commit of the spec's example (section 8, item 3), and an application whose browser
  shows \<open>/a\<close> while no repository path has been assigned yet.
\<close>

definition example_commit :: ISingleCommitInfo where
  "example_commit =
     \<lparr>commit = ''abcdef1234567890'',
      commit_msg = ''Fix bug'' @ [newline, newline] @ ''Details here''\<rparr>"

definition example_app :: app where
  "example_app = \<lparr>filebrowser_model = \<lparr>path = ''/a''\<rparr>, gitExtension = \<lparr>pathRepository = None\<rparr>\<rparr>"

section \<open>Properties of the status translation\<close>

subsection \<open>The pattern test is a search for a contiguous occurrence\<close>

lemma literal_at_prefix: "literal_at p s = prefix p s"
  by (induction p s rule: literal_at.induct) simp_all

lemma regex_test_sublist: "regex_test p s = sublist p s"
proof (induction s)
  case Nil
  show ?case by (simp add: literal_at_prefix)
next
  case (Cons c cs)
  then show ?case by (simp add: literal_at_prefix sublist_Cons_right)
qed

lemma onEvent_status_default:
  assumes "event \<notin> set case_labels"
  shows "onEvent_status event =
    (if regex_test ''git:add:files'' event then ''adding files...'' else ''working...'')"
  using assms unfolding onEvent_status_def case_labels_def by simp

text \<open>
  C1 (as amended). For an event name that has no \<open>case\<close> label of its own, the status
  text is "adding files..." exactly when the name contains \<open>git:add:files\<close> as a
  contiguous substring, at any position, and "working..." otherwise.
\<close>

theorem onEvent_default_substring:
  assumes "event \<notin> set case_labels"
  shows "status (onEvent w event) =
    (if sublist ''git:add:files'' event then ''adding files...'' else ''working...'')"
proof -
  have "status (onEvent w event) = onEvent_status event"
    by (simp add: onEvent_def)
  also have "\<dots> = (if regex_test ''git:add:files'' event then ''adding files...''
      else ''working...'')"
    using assms by (rule onEvent_status_default)
  finally show ?thesis
    by (simp only: regex_test_sublist)
qed

theorem onEvent_default_substring_witness:
  "''xgit:add:files'' \<notin> set case_labels \<and> sublist ''git:add:files'' ''xgit:add:files''
   \<and> status (onEvent \<lparr>status = ''idle''\<rparr> ''xgit:add:files'') = ''adding files...''
   \<and> ''git:fetch'' \<notin> set case_labels \<and> \<not> sublist ''git:add:files'' ''git:fetch''
   \<and> status (onEvent \<lparr>status = ''idle''\<rparr> ''git:fetch'') = ''working...''"
proof -
  have a: "''xgit:add:files'' \<notin> set case_labels"
    by (simp add: case_labels_def)
  have b: "''git:fetch'' \<notin> set case_labels"
    by (simp add: case_labels_def)
  have c: "sublist ''git:add:files'' ''xgit:add:files''"
    by (simp add: sublist_Cons_right)
  have d: "\<not> sublist ''git:add:files'' ''git:fetch''"
    by (simp add: sublist_Cons_right)
  from onEvent_default_substring [OF a, of "\<lparr>status = ''idle''\<rparr>"]
    onEvent_default_substring [OF b, of "\<lparr>status = ''idle''\<rparr>"] a b c d
  show ?thesis by simp
qed

text \<open>
  C1 as stated fails: \<open>xgit:add:files\<close> has no \<open>case\<close> label and does not start with
  \<open>git:add:files\<close>, yet the pattern test succeeds and the status is "adding files...".
\<close>

theorem onEvent_anchored_counterexample:
  "''xgit:add:files'' \<notin> set case_labels
   \<and> \<not> prefix ''git:add:files'' ''xgit:add:files''
   \<and> status (onEvent \<lparr>status = ''idle''\<rparr> ''xgit:add:files'') = ''adding files...''"
  by (simp add: case_labels_def onEvent_def onEvent_status_def)

text \<open>
  C2. Each of the eleven event names with a \<open>case\<close> label yields the listed status text,
  whatever the widget showed before. \<open>onEvent\<close> has no failing branch: the source neither
  throws nor loops, and the scan of the pattern test is structurally recursive.
\<close>

theorem onEvent_case_labels:
  "status (onEvent w ''git:checkout'') = ''checking out...''
   \<and> status (onEvent w ''git:clone'') = ''cloning repository...''
   \<and> status (onEvent w ''git:commit:create'') = ''committing changes...''
   \<and> status (onEvent w ''git:commit:revert'') = ''reverting changes...''
   \<and> status (onEvent w ''git:idle'') = ''idle''
   \<and> status (onEvent w ''git:init'') = ''initializing repository...''
   \<and> status (onEvent w ''git:pull'') = ''pulling changes...''
   \<and> status (onEvent w ''git:pushing'') = ''pushing changes...''
   \<and> status (onEvent w ''git:refresh'') = ''refreshing...''
   \<and> status (onEvent w ''git:reset:changes'') = ''resetting changes...''
   \<and> status (onEvent w ''git:reset:hard'') = ''discarding changes...''"
  unfolding onEvent_def onEvent_status_def by simp

section \<open>Properties of the repository-path binding\<close>

text \<open>What each handler assigns, whatever the browser does.\<close>

lemma on_restored_assigns:
  "pathRepository (gitExtension (on_restored a)) = Some (path (filebrowser_model a))"
  by (simp add: on_restored_def)

lemma on_pathChanged_assigns:
  "pathRepository (gitExtension (on_pathChanged a change)) = Some (newValue change)"
  by (simp add: on_pathChanged_def)

text \<open>
  The browser and the repository path agree on directory \<open>d\<close>. This holds after every
  change notification and is kept by the restore callback.
\<close>

lemma cd_agrees:
  "path (filebrowser_model (cd a d)) = d \<and> pathRepository (gitExtension (cd a d)) = Some d"
  by (simp add: cd_def on_pathChanged_def)

lemma on_restored_agrees:
  assumes "path (filebrowser_model a) = d" and "pathRepository (gitExtension a) = Some d"
  shows "path (filebrowser_model (on_restored a)) = d
    \<and> pathRepository (gitExtension (on_restored a)) = Some d"
  using assms by (simp add: on_restored_def)

lemma process_agrees:
  assumes "path (filebrowser_model a) = d" and "pathRepository (gitExtension a) = Some d"
  shows "pathRepository (gitExtension (process a ss)) = Some (last (d # directories ss))"
  using assms
proof (induction ss arbitrary: a d)
  case Nil
  then show ?case by simp
next
  case (Cons s ss)
  show ?case
  proof (cases s)
    case Restored
    from on_restored_agrees [OF Cons.prems]
    have "pathRepository (gitExtension (process (on_restored a) ss))
        = Some (last (d # directories ss))"
      by (intro Cons.IH) simp_all
    with Restored show ?thesis by simp
  next
    case (PathChanged e)
    from cd_agrees [of a e]
    have "pathRepository (gitExtension (process (cd a e) ss)) = Some (last (e # directories ss))"
      by (intro Cons.IH) simp_all
    with PathChanged show ?thesis by simp
  qed
qed

text \<open>
  C3. Whatever the application's state before, and wherever the restore signal arrives
  among the change notifications (before, between or after them; the proof does not even
  need that it arrives at most once), once at least one notification has been processed
  the repository path is the directory of the last notification.
\<close>

theorem pathRepository_is_last_change:
  assumes "directories ss \<noteq> []"
  shows "pathRepository (gitExtension (process a ss)) = Some (last (directories ss))"
  using assms
proof (induction ss arbitrary: a)
  case Nil
  then show ?case by simp
next
  case (Cons s ss)
  show ?case
  proof (cases s)
    case Restored
    with Cons.prems have "directories ss \<noteq> []" by simp
    then have "pathRepository (gitExtension (process (on_restored a) ss))
        = Some (last (directories ss))"
      by (rule Cons.IH)
    with Restored show ?thesis by simp
  next
    case (PathChanged e)
    from cd_agrees [of a e]
    have "pathRepository (gitExtension (process (cd a e) ss)) = Some (last (e # directories ss))"
      by (intro process_agrees) simp_all
    with PathChanged show ?thesis by simp
  qed
qed

theorem pathRepository_is_last_change_witness:
  "pathRepository (gitExtension (process example_app
       [Restored, PathChanged ''/b'', PathChanged ''/c''])) = Some ''/c''
   \<and> pathRepository (gitExtension (process example_app
       [PathChanged ''/b'', Restored, PathChanged ''/c''])) = Some ''/c''
   \<and> pathRepository (gitExtension (process example_app
       [PathChanged ''/b'', PathChanged ''/c'', Restored])) = Some ''/c''"
proof -
  have first: "directories [Restored, PathChanged ''/b'', PathChanged ''/c''] \<noteq> []"
    by simp
  have between: "directories [PathChanged ''/b'', Restored, PathChanged ''/c''] \<noteq> []"
    by simp
  have after: "directories [PathChanged ''/b'', PathChanged ''/c'', Restored] \<noteq> []"
    by simp
  from pathRepository_is_last_change [OF first, of example_app]
    pathRepository_is_last_change [OF between, of example_app]
    pathRepository_is_last_change [OF after, of example_app]
  show ?thesis by simp
qed

section \<open>Properties of the component\<close>

subsection \<open>What each collaborator call changes\<close>

lemma record_call_simps:
  "props (record_call c e) = props c"
  "state (record_call c e) = state c"
  "calls (record_call c e) = calls c @ [e]"
  by (simp_all add: record_call_def)

lemma onClose_simps:
  "props (onClose c) = props c"
  "state (onClose c) = state c"
  "calls (onClose c) = calls c @ [OnClose]"
  by (simp_all add: onClose_def record_call_simps)

lemma showErrorMessage_simps:
  "props (showErrorMessage c t d) = props c"
  "state (showErrorMessage c t d) = state c"
  "calls (showErrorMessage c t d) = calls c @ [ShowErrorMessage t d]"
  by (simp_all add: showErrorMessage_def record_call_simps)

lemma setState_simps:
  "comp (setState r u) = record_call (comp r) (SetState u)"
  "queued (setState r u) = queued r @ [u]"
  by (simp_all add: setState_def)

lemma within_simps:
  "comp (within f r) = f (comp r)"
  "queued (within f r) = queued r"
  by (simp_all add: within_def)

lemma enter_simps:
  "comp (enter c) = c"
  "queued (enter c) = []"
  by (simp_all add: enter_def)

lemma leave_simps:
  "props (leave r) = props (comp r)"
  "state (leave r) = foldl merge_state (state (comp r)) (queued r)"
  "calls (leave r) = calls (comp r)"
  by (simp_all add: leave_def)

lemma defaultMessage_props: "props c = props c' \<Longrightarrow> defaultMessage c = defaultMessage c'"
  by (simp add: defaultMessage_def)

lemma new_calls_append: "calls c' = calls c @ es \<Longrightarrow> new_calls c c' = es"
  by (simp add: new_calls_def)

subsection \<open>The default message\<close>

lemma element0_split_from:
  "element0 (split_from sep cur s) = cur @ takeWhile (\<lambda>c. c \<noteq> sep) s"
  by (induction s arbitrary: cur) (simp_all add: element0_def)

lemma element0_split_str: "element0 (split_str sep s) = takeWhile (\<lambda>c. c \<noteq> sep) s"
  by (simp add: split_str_def element0_split_from)

text \<open>
  C5. The default message is \<open>Revert "\<close>, the first line of the commit message (its
  characters before the first newline), \<open>"\<close>, two newlines, \<open>This reverts commit \<close> and
  the full commit id; for the example commit it is the text of the spec.
\<close>

theorem defaultMessage_text:
  "defaultMessage c =
     ''Revert '' @ [dquote]
       @ takeWhile (\<lambda>x. x \<noteq> newline) (commit_msg (commit_info (props c)))
       @ [dquote] @ [newline, newline]
       @ ''This reverts commit '' @ commit (commit_info (props c))
   \<and> defaultMessage (constructor \<lparr>action = Delete, commit_info = example_commit\<rparr>) =
       ''Revert '' @ [dquote] @ ''Fix bug'' @ [dquote] @ [newline, newline]
         @ ''This reverts commit abcdef1234567890''"
proof
  show "defaultMessage c =
     ''Revert '' @ [dquote]
       @ takeWhile (\<lambda>x. x \<noteq> newline) (commit_msg (commit_info (props c)))
       @ [dquote] @ [newline, newline]
       @ ''This reverts commit '' @ commit (commit_info (props c))"
    by (simp add: defaultMessage_def element0_split_str)
  show "defaultMessage (constructor \<lparr>action = Delete, commit_info = example_commit\<rparr>) =
       ''Revert '' @ [dquote] @ ''Fix bug'' @ [dquote] @ [newline, newline]
         @ ''This reverts commit abcdef1234567890''"
    by (simp add: defaultMessage_def split_str_def element0_def constructor_def
        example_commit_def newline_def)
qed

subsection \<open>Cancelling and editing\<close>

lemma onCancelClick_calls:
  "new_calls c (onCancelClick c) =
     [SetState \<lparr>upd_message = Some [], upd_disabled = Some True\<rparr>, OnClose]"
  by (rule new_calls_append)
     (simp add: onCancelClick_def onCancelClick_run_def leave_simps within_simps
        setState_simps enter_simps onClose_simps record_call_simps)

lemma onCancelClick_state: "state (onCancelClick c) = \<lparr>message = [], disabled = True\<rparr>"
  by (simp add: onCancelClick_def onCancelClick_run_def leave_simps within_simps
      setState_simps enter_simps merge_state_def)

lemma onCancelClick_props: "props (onCancelClick c) = props c"
  by (simp add: onCancelClick_def onCancelClick_run_def leave_simps within_simps
      setState_simps enter_simps onClose_simps record_call_simps)

lemma onMessageChange_state:
  "state (onMessageChange c v) = \<lparr>message = v, disabled = disabled (state c)\<rparr>"
  by (simp add: onMessageChange_def onMessageChange_run_def leave_simps setState_simps
      enter_simps record_call_simps merge_state_def)

lemma onMessageChange_props: "props (onMessageChange c v) = props c"
  by (simp add: onMessageChange_def onMessageChange_run_def leave_simps setState_simps
      enter_simps record_call_simps)

text \<open>
  C7. Whatever the variant, a cancel makes exactly two calls, \<open>setState\<close> and then the
  close callback: none of them is on the repository service, the close callback is invoked
  once, and \<open>disabled\<close> is true afterwards.
\<close>

theorem onCancelClick_closes_without_service:
  "new_calls c (onCancelClick c) =
     [SetState \<lparr>upd_message = Some [], upd_disabled = Some True\<rparr>, OnClose]
   \<and> filter is_service_call (new_calls c (onCancelClick c)) = []
   \<and> count_list (new_calls c (onCancelClick c)) OnClose = 1
   \<and> disabled (state (onCancelClick c)) = True"
  by (simp add: onCancelClick_calls onCancelClick_state)

text \<open>
  C10. After a cancel the state is exactly: message empty, \<open>disabled\<close> true. The properties
  are untouched, and a message typed before the cancel is gone.
\<close>

theorem onCancelClick_clears_message:
  "state (onCancelClick c) = \<lparr>message = [], disabled = True\<rparr>
   \<and> props (onCancelClick c) = props c
   \<and> message (state (onCancelClick (onMessageChange c v))) = []"
  by (simp add: onCancelClick_state onCancelClick_props)

subsection \<open>Submitting: the part before the \<open>await\<close>\<close>

text \<open>
  The running handler just after it has called the repository service. The calls so far
  are \<open>setState\<close> first, then the call on the service, preceded by the invocation of
  \<open>_defaultMessage\<close> when the delete variant finds the message empty. The update is in the
  queue and the state is still the one the handler found.
\<close>

lemma onSubmitClick_run_calls:
  "calls (comp (snd (onSubmitClick_run r))) =
     calls (comp r) @ SetState \<lparr>upd_message = None, upd_disabled = Some True\<rparr> #
       (if action (props (comp r)) = Reset
        then [ResetToCommit (commit (commit_info (props (comp r))))]
        else if message (state (comp r)) \<noteq> [] then
          [DeleteCommit (message (state (comp r))) (commit (commit_info (props (comp r))))]
        else [DefaultMessage,
              DeleteCommit (defaultMessage (comp r)) (commit (commit_info (props (comp r))))])"
  by (simp add: onSubmitClick_run_def Let_def setState_simps within_simps record_call_simps
      call_defaultMessage_def
      defaultMessage_props [of "record_call (comp r) e" "comp r" for e])

lemma onSubmitClick_run_state: "state (comp (snd (onSubmitClick_run r))) = state (comp r)"
  by (simp add: onSubmitClick_run_def Let_def setState_simps within_simps record_call_simps
      call_defaultMessage_def)

lemma onSubmitClick_run_props: "props (comp (snd (onSubmitClick_run r))) = props (comp r)"
  by (simp add: onSubmitClick_run_def Let_def setState_simps within_simps record_call_simps
      call_defaultMessage_def)

lemma onSubmitClick_run_queued:
  "queued (snd (onSubmitClick_run r)) =
     queued r @ [\<lparr>upd_message = None, upd_disabled = Some True\<rparr>]"
  by (simp add: onSubmitClick_run_def Let_def setState_simps within_simps split: prod.splits)

lemma onSubmitClick_run_frame:
  "fst (onSubmitClick_run r) =
     \<lparr>shortCommit = take 7 (commit (commit_info (props (comp r)))),
      branch = action (props (comp r))\<rparr>"
  by (cases "action (props (comp r))")
     (simp_all add: onSubmitClick_run_def Let_def setState_simps record_call_simps
        split: prod.splits)

text \<open>The same once the handler has returned to React at its \<open>await\<close>.\<close>

lemma onSubmitClick_start_split:
  "onSubmitClick_start c =
     (fst (onSubmitClick_run (enter c)), leave (snd (onSubmitClick_run (enter c))))"
  by (simp add: onSubmitClick_start_def split: prod.splits)

lemma onSubmitClick_start_calls:
  "calls (snd (onSubmitClick_start c)) =
     calls c @ SetState \<lparr>upd_message = None, upd_disabled = Some True\<rparr> #
       (if action (props c) = Reset then [ResetToCommit (commit (commit_info (props c)))]
        else if message (state c) \<noteq> [] then
          [DeleteCommit (message (state c)) (commit (commit_info (props c)))]
        else [DefaultMessage,
              DeleteCommit (defaultMessage c) (commit (commit_info (props c)))])"
  by (simp add: onSubmitClick_start_split leave_simps onSubmitClick_run_calls enter_simps)

lemma onSubmitClick_start_state:
  "state (snd (onSubmitClick_start c)) = \<lparr>message = message (state c), disabled = True\<rparr>"
  by (simp add: onSubmitClick_start_split leave_simps onSubmitClick_run_state
      onSubmitClick_run_queued enter_simps merge_state_def)

lemma onSubmitClick_start_frame:
  "fst (onSubmitClick_start c) =
     \<lparr>shortCommit = take 7 (commit (commit_info (props c))), branch = action (props c)\<rparr>"
  by (simp add: onSubmitClick_start_split onSubmitClick_run_frame enter_simps)

subsection \<open>Submitting: the part after the \<open>await\<close>\<close>

lemma onSubmitClick_resume_calls:
  "calls (snd (onSubmitClick_resume f c r)) =
     calls c @
     (case r of
        Resolved \<Rightarrow> [OnClose]
      | Rejected err \<Rightarrow>
          (case template_text err of
             Inl exn \<Rightarrow> []
           | Inr text \<Rightarrow>
               [ShowErrorMessage
                  (if branch f = Reset then ''Error Removing Changes''
                   else ''Error Reverting Changes'')
                  ((if branch f = Reset then ''Failed to discard changes after ''
                    else ''Failed to revert '') @ shortCommit f @ '': '' @ text),
                OnClose]))"
  by (cases r; cases "branch f")
     (simp_all add: onSubmitClick_resume_def onClose_simps showErrorMessage_simps
        split: sum.splits)

lemma onSubmitClick_resume_state: "state (snd (onSubmitClick_resume f c r)) = state c"
  by (cases r; cases "branch f")
     (simp_all add: onSubmitClick_resume_def onClose_simps showErrorMessage_simps
        split: sum.splits)

lemma onSubmitClick_resume_completion:
  "fst (onSubmitClick_resume f c r) =
     (case r of
        Resolved \<Rightarrow> Fulfilled
      | Rejected err \<Rightarrow>
          (case template_text err of Inl exn \<Rightarrow> Thrown exn | Inr text \<Rightarrow> Fulfilled))"
  by (cases r) (simp_all add: onSubmitClick_resume_def split: sum.splits)

subsection \<open>Submitting: from the click to the close\<close>

lemma onSubmitClick_split:
  "onSubmitClick c r =
     onSubmitClick_resume (fst (onSubmitClick_start c)) (snd (onSubmitClick_start c)) r"
  by (simp add: onSubmitClick_def split: prod.splits)

lemma onSubmitClick_new_calls:
  "new_calls c (snd (onSubmitClick c r)) =
     SetState \<lparr>upd_message = None, upd_disabled = Some True\<rparr> #
     (if action (props c) = Reset then [ResetToCommit (commit (commit_info (props c)))]
      else if message (state c) \<noteq> [] then
        [DeleteCommit (message (state c)) (commit (commit_info (props c)))]
      else [DefaultMessage, DeleteCommit (defaultMessage c) (commit (commit_info (props c)))])
     @ (case r of
          Resolved \<Rightarrow> [OnClose]
        | Rejected err \<Rightarrow>
            (case template_text err of
               Inl exn \<Rightarrow> []
             | Inr text \<Rightarrow>
                 [ShowErrorMessage
                    (if action (props c) = Reset then ''Error Removing Changes''
                     else ''Error Reverting Changes'')
                    ((if action (props c) = Reset then ''Failed to discard changes after ''
                      else ''Failed to revert '')
                     @ take 7 (commit (commit_info (props c))) @ '': '' @ text),
                  OnClose]))"
  by (rule new_calls_append, cases r; cases "action (props c)")
     (simp_all add: onSubmitClick_split onSubmitClick_resume_calls onSubmitClick_start_calls
        onSubmitClick_start_frame split: sum.splits)

text \<open>The tail of a submission: what follows the call on the repository service.\<close>

lemma onSubmitClick_reset_calls:
  assumes "action (props c) = Reset"
  shows "new_calls c (snd (onSubmitClick c r)) =
     [SetState \<lparr>upd_message = None, upd_disabled = Some True\<rparr>,
      ResetToCommit (commit (commit_info (props c)))]
     @ (case r of
          Resolved \<Rightarrow> [OnClose]
        | Rejected err \<Rightarrow>
            (case template_text err of
               Inl exn \<Rightarrow> []
             | Inr text \<Rightarrow>
                 [ShowErrorMessage ''Error Removing Changes''
                    (''Failed to discard changes after ''
                     @ take 7 (commit (commit_info (props c))) @ '': '' @ text),
                  OnClose]))"
  using assms by (cases r) (simp_all add: onSubmitClick_new_calls split: sum.splits)

lemma onSubmitClick_delete_calls:
  assumes "action (props c) = Delete"
  shows "new_calls c (snd (onSubmitClick c r)) =
     SetState \<lparr>upd_message = None, upd_disabled = Some True\<rparr> #
     (if message (state c) \<noteq> [] then
        [DeleteCommit (message (state c)) (commit (commit_info (props c)))]
      else [DefaultMessage, DeleteCommit (defaultMessage c) (commit (commit_info (props c)))])
     @ (case r of
          Resolved \<Rightarrow> [OnClose]
        | Rejected err \<Rightarrow>
            (case template_text err of
               Inl exn \<Rightarrow> []
             | Inr text \<Rightarrow>
                 [ShowErrorMessage ''Error Reverting Changes''
                    (''Failed to revert '' @ take 7 (commit (commit_info (props c)))
                     @ '': '' @ text),
                  OnClose]))"
  using assms by (cases r) (simp_all add: onSubmitClick_new_calls split: sum.splits)

text \<open>
  C4 (as amended). For either variant, when the service call resolves, or is rejected with
  a reason that the template literal converts to a text, the handler's own promise is
  fulfilled, the close callback is invoked exactly once, and it is the last call. When the
  rejection's reason converts to \<open>text\<close>, the call just before the close callback is the
  error surface, with the title of the variant and a detail made of the action's words,
  the first seven characters of the commit id (\<open>slice(0, 7)\<close>) and that text.
\<close>

theorem onSubmitClick_reports_then_closes:
  "(r = Resolved \<or> r = Rejected (Converts text) \<longrightarrow>
        fst (onSubmitClick c r) = Fulfilled
      \<and> count_list (new_calls c (snd (onSubmitClick c r))) OnClose = 1
      \<and> last (new_calls c (snd (onSubmitClick c r))) = OnClose)
   \<and> (r = Rejected (Converts text) \<and> action (props c) = Reset \<longrightarrow>
        last (butlast (new_calls c (snd (onSubmitClick c r)))) =
          ShowErrorMessage ''Error Removing Changes''
            (''Failed to discard changes after '' @ take 7 (commit (commit_info (props c)))
               @ '': '' @ text))
   \<and> (r = Rejected (Converts text) \<and> action (props c) = Delete \<longrightarrow>
        last (butlast (new_calls c (snd (onSubmitClick c r)))) =
          ShowErrorMessage ''Error Reverting Changes''
            (''Failed to revert '' @ take 7 (commit (commit_info (props c))) @ '': '' @ text))"
proof (intro conjI impI)
  assume settled: "r = Resolved \<or> r = Rejected (Converts text)"
  then show "fst (onSubmitClick c r) = Fulfilled"
    by (auto simp add: onSubmitClick_split onSubmitClick_resume_completion template_text_def)
  from settled show "count_list (new_calls c (snd (onSubmitClick c r))) OnClose = 1"
    by (auto simp add: onSubmitClick_new_calls template_text_def)
  from settled show "last (new_calls c (snd (onSubmitClick c r))) = OnClose"
    by (auto simp add: onSubmitClick_new_calls template_text_def)
next
  assume "r = Rejected (Converts text) \<and> action (props c) = Reset"
  then show "last (butlast (new_calls c (snd (onSubmitClick c r)))) =
      ShowErrorMessage ''Error Removing Changes''
        (''Failed to discard changes after '' @ take 7 (commit (commit_info (props c)))
           @ '': '' @ text)"
    by (simp add: onSubmitClick_reset_calls template_text_def)
next
  assume "r = Rejected (Converts text) \<and> action (props c) = Delete"
  then show "last (butlast (new_calls c (snd (onSubmitClick c r)))) =
      ShowErrorMessage ''Error Reverting Changes''
        (''Failed to revert '' @ take 7 (commit (commit_info (props c))) @ '': '' @ text)"
    by (simp add: onSubmitClick_delete_calls template_text_def butlast_append)
qed

theorem onSubmitClick_reports_then_closes_witness:
  "fst (onSubmitClick (constructor \<lparr>action = Reset, commit_info = example_commit\<rparr>) Resolved)
     = Fulfilled
   \<and> new_calls (constructor \<lparr>action = Reset, commit_info = example_commit\<rparr>)
     (snd (onSubmitClick (constructor \<lparr>action = Reset, commit_info = example_commit\<rparr>)
        Resolved)) =
     [SetState \<lparr>upd_message = None, upd_disabled = Some True\<rparr>,
      ResetToCommit ''abcdef1234567890'',
      OnClose]
   \<and> fst (onSubmitClick (constructor \<lparr>action = Reset, commit_info = example_commit\<rparr>)
        (Rejected (Converts ''Error: boom''))) = Fulfilled
   \<and> new_calls (constructor \<lparr>action = Reset, commit_info = example_commit\<rparr>)
     (snd (onSubmitClick (constructor \<lparr>action = Reset, commit_info = example_commit\<rparr>)
        (Rejected (Converts ''Error: boom'')))) =
     [SetState \<lparr>upd_message = None, upd_disabled = Some True\<rparr>,
      ResetToCommit ''abcdef1234567890'',
      ShowErrorMessage ''Error Removing Changes''
        ''Failed to discard changes after abcdef1: Error: boom'',
      OnClose]
   \<and> last (butlast (new_calls (constructor \<lparr>action = Reset, commit_info = example_commit\<rparr>)
     (snd (onSubmitClick (constructor \<lparr>action = Reset, commit_info = example_commit\<rparr>)
        (Rejected (Converts ''Error: boom'')))))) =
      ShowErrorMessage ''Error Removing Changes''
        ''Failed to discard changes after abcdef1: Error: boom''
   \<and> last (butlast (new_calls (constructor \<lparr>action = Delete, commit_info = example_commit\<rparr>)
     (snd (onSubmitClick (constructor \<lparr>action = Delete, commit_info = example_commit\<rparr>)
        (Rejected (Converts ''Error: boom'')))))) =
      ShowErrorMessage ''Error Reverting Changes'' ''Failed to revert abcdef1: Error: boom''"
proof -
  let ?reset = "constructor \<lparr>action = Reset, commit_info = example_commit\<rparr>"
  let ?delete = "constructor \<lparr>action = Delete, commit_info = example_commit\<rparr>"
  have reset: "action (props ?reset) = Reset"
    by (simp add: constructor_def)
  have delete: "action (props ?delete) = Delete"
    by (simp add: constructor_def)
  have id: "commit (commit_info (props (constructor \<lparr>action = a, commit_info = example_commit\<rparr>)))
      = ''abcdef1234567890''" for a
    by (simp add: constructor_def example_commit_def)
  from onSubmitClick_reports_then_closes [of Resolved "''Error: boom''" ?reset]
    onSubmitClick_reports_then_closes
      [of "Rejected (Converts ''Error: boom'')" "''Error: boom''" ?reset]
    onSubmitClick_reports_then_closes
      [of "Rejected (Converts ''Error: boom'')" "''Error: boom''" ?delete]
    reset delete
  show ?thesis
    by (simp add: id onSubmitClick_reset_calls template_text_def)
qed

text \<open>
  C4 as stated fails: when the reset variant's service call is rejected with a reason that
  cannot be converted to a string (here a \<open>Symbol\<close>), the template literal throws inside
  the \<open>catch\<close> block. The handler's promise is rejected with that exception, and neither
  the error surface nor the close callback is invoked: the calls end with the service call.
\<close>

theorem onSubmitClick_unconvertible_counterexample:
  "fst (onSubmitClick (constructor \<lparr>action = Reset, commit_info = example_commit\<rparr>)
        (Rejected (Unconvertible ''TypeError: Cannot convert a Symbol value to a string'')))
     = Thrown ''TypeError: Cannot convert a Symbol value to a string''
   \<and> count_list
        (new_calls (constructor \<lparr>action = Reset, commit_info = example_commit\<rparr>)
           (snd (onSubmitClick (constructor \<lparr>action = Reset, commit_info = example_commit\<rparr>)
              (Rejected (Unconvertible
                 ''TypeError: Cannot convert a Symbol value to a string'')))))
        OnClose = 0
   \<and> new_calls (constructor \<lparr>action = Reset, commit_info = example_commit\<rparr>)
        (snd (onSubmitClick (constructor \<lparr>action = Reset, commit_info = example_commit\<rparr>)
           (Rejected (Unconvertible
              ''TypeError: Cannot convert a Symbol value to a string'')))) =
       [SetState \<lparr>upd_message = None, upd_disabled = Some True\<rparr>,
        ResetToCommit ''abcdef1234567890'']"
proof -
  let ?reset = "constructor \<lparr>action = Reset, commit_info = example_commit\<rparr>"
  let ?symbol = "Rejected (Unconvertible ''TypeError: Cannot convert a Symbol value to a string'')"
  have reset: "action (props ?reset) = Reset"
    by (simp add: constructor_def)
  have id: "commit (commit_info (props ?reset)) = ''abcdef1234567890''"
    by (simp add: constructor_def example_commit_def)
  have completion: "fst (onSubmitClick ?reset ?symbol)
      = Thrown ''TypeError: Cannot convert a Symbol value to a string''"
    by (simp add: onSubmitClick_split onSubmitClick_resume_completion template_text_def)
  have trace: "new_calls ?reset (snd (onSubmitClick ?reset ?symbol)) =
      [SetState \<lparr>upd_message = None, upd_disabled = Some True\<rparr>,
       ResetToCommit ''abcdef1234567890'']"
    by (simp add: onSubmitClick_reset_calls [OF reset] template_text_def id)
  show ?thesis
    unfolding trace using completion by simp
qed

text \<open>
  C6. On the delete variant, a non-empty message is handed to \<open>deleteCommit\<close> as it is,
  together with the full commit id, and \<open>_defaultMessage\<close> is not invoked; with an empty
  message \<open>_defaultMessage\<close> is invoked and its result is handed over instead. In both
  cases this is the only call on the repository service.
\<close>

theorem onSubmitClick_message_argument:
  assumes "action (props c) = Delete"
  shows "(message (state c) \<noteq> [] \<longrightarrow>
           filter is_service_call (new_calls c (snd (onSubmitClick c r))) =
             [DeleteCommit (message (state c)) (commit (commit_info (props c)))]
           \<and> DefaultMessage \<notin> set (new_calls c (snd (onSubmitClick c r))))
       \<and> (message (state c) = [] \<longrightarrow>
           filter is_service_call (new_calls c (snd (onSubmitClick c r))) =
             [DeleteCommit (defaultMessage c) (commit (commit_info (props c)))]
           \<and> DefaultMessage \<in> set (new_calls c (snd (onSubmitClick c r))))"
proof -
  have tail: "filter is_service_call after = [] \<and> DefaultMessage \<notin> set after"
    if "after = (case r of
          Resolved \<Rightarrow> [OnClose]
        | Rejected err \<Rightarrow>
            (case template_text err of
               Inl exn \<Rightarrow> []
             | Inr text \<Rightarrow>
                 [ShowErrorMessage ''Error Reverting Changes''
                    (''Failed to revert '' @ take 7 (commit (commit_info (props c)))
                     @ '': '' @ text),
                  OnClose]))" for after
    unfolding that by (cases r) (simp_all split: sum.splits)
  show ?thesis
  proof (intro conjI impI)
    assume "message (state c) \<noteq> []"
    with assms tail show "filter is_service_call (new_calls c (snd (onSubmitClick c r))) =
        [DeleteCommit (message (state c)) (commit (commit_info (props c)))]"
      by (simp add: onSubmitClick_delete_calls)
  next
    assume "message (state c) \<noteq> []"
    with assms tail show "DefaultMessage \<notin> set (new_calls c (snd (onSubmitClick c r)))"
      by (simp add: onSubmitClick_delete_calls)
  next
    assume "message (state c) = []"
    with assms tail show "filter is_service_call (new_calls c (snd (onSubmitClick c r))) =
        [DeleteCommit (defaultMessage c) (commit (commit_info (props c)))]"
      by (simp add: onSubmitClick_delete_calls)
  next
    assume "message (state c) = []"
    with assms show "DefaultMessage \<in> set (new_calls c (snd (onSubmitClick c r)))"
      by (simp add: onSubmitClick_delete_calls)
  qed
qed

theorem onSubmitClick_message_argument_witness:
  "filter is_service_call
     (new_calls
        (onMessageChange (constructor \<lparr>action = Delete, commit_info = example_commit\<rparr>) ''Undo it'')
        (snd (onSubmitClick
           (onMessageChange (constructor \<lparr>action = Delete, commit_info = example_commit\<rparr>) ''Undo it'')
           Resolved)))
     = [DeleteCommit ''Undo it'' ''abcdef1234567890'']
   \<and> DefaultMessage \<notin> set
     (new_calls
        (onMessageChange (constructor \<lparr>action = Delete, commit_info = example_commit\<rparr>) ''Undo it'')
        (snd (onSubmitClick
           (onMessageChange (constructor \<lparr>action = Delete, commit_info = example_commit\<rparr>) ''Undo it'')
           Resolved)))
   \<and> DefaultMessage \<in> set
     (new_calls (constructor \<lparr>action = Delete, commit_info = example_commit\<rparr>)
        (snd (onSubmitClick (constructor \<lparr>action = Delete, commit_info = example_commit\<rparr>)
           Resolved)))"
proof -
  let ?fresh = "constructor \<lparr>action = Delete, commit_info = example_commit\<rparr>"
  let ?edited = "onMessageChange ?fresh ''Undo it''"
  have fresh: "action (props ?fresh) = Delete" "message (state ?fresh) = []"
    by (simp_all add: constructor_def)
  have edited: "action (props ?edited) = Delete" "message (state ?edited) = ''Undo it''"
    "commit (commit_info (props ?edited)) = ''abcdef1234567890''"
    by (simp_all add: onMessageChange_state onMessageChange_props constructor_def
        example_commit_def)
  from onSubmitClick_message_argument [OF edited(1), of Resolved]
    onSubmitClick_message_argument [OF fresh(1), of Resolved]
  show ?thesis
    by (simp add: fresh(2) edited(2,3))
qed

subsection \<open>The flag \<open>disabled\<close>\<close>

lemma happen_disabled:
  assumes "disabled (state (fst cf))"
  shows "disabled (state (fst (happen cf h)))"
proof (cases cf)
  case (Pair c fs)
  with assms have busy: "disabled (state c)" by simp
  show ?thesis
  proof (cases h)
    case CancelClick
    with Pair show ?thesis by (simp add: onCancelClick_state)
  next
    case (MessageChange v)
    with Pair busy show ?thesis by (simp add: onMessageChange_state)
  next
    case SubmitClick
    have "disabled (state (snd (onSubmitClick_start c)))"
      by (simp add: onSubmitClick_start_state)
    with Pair SubmitClick show ?thesis by (simp add: split_def Let_def)
  next
    case (Settle r)
    with Pair busy show ?thesis by (cases fs) (simp_all add: onSubmitClick_resume_state)
  qed
qed

lemma happen_all_disabled:
  "disabled (state (fst cf)) \<Longrightarrow> disabled (state (fst (happen_all cf hs)))"
  by (induction hs arbitrary: cf) (simp_all add: happen_disabled)

text \<open>
  C8. A new instance is not disabled. A cancel and a submission (already at its \<open>await\<close>,
  and so also when it has run to its end) set \<open>disabled\<close> to true; an edit of the message
  and the rest of a submission after its \<open>await\<close> leave it as it is. Hence once \<open>disabled\<close>
  is true it stays true, whatever happens to the instance afterwards and in whatever
  order, suspended submissions included.
\<close>

theorem disabled_never_reset:
  "disabled (state (constructor p)) = False
   \<and> disabled (state (onCancelClick c)) = True
   \<and> disabled (state (snd (onSubmitClick_start c))) = True
   \<and> disabled (state (snd (onSubmitClick c r))) = True
   \<and> disabled (state (snd (onSubmitClick_resume f c r))) = disabled (state c)
   \<and> disabled (state (onMessageChange c v)) = disabled (state c)
   \<and> (disabled (state c) \<longrightarrow> disabled (state (fst (happen_all (c, fs) hs))))"
proof (intro conjI impI)
  show "disabled (state (constructor p)) = False"
    by (simp add: constructor_def)
  show "disabled (state (onCancelClick c)) = True"
    by (simp add: onCancelClick_state)
  show "disabled (state (snd (onSubmitClick_start c))) = True"
    by (simp add: onSubmitClick_start_state)
  show "disabled (state (snd (onSubmitClick c r))) = True"
    by (simp add: onSubmitClick_split onSubmitClick_resume_state onSubmitClick_start_state)
  show "disabled (state (snd (onSubmitClick_resume f c r))) = disabled (state c)"
    by (simp add: onSubmitClick_resume_state)
  show "disabled (state (onMessageChange c v)) = disabled (state c)"
    by (simp add: onMessageChange_state)
next
  assume "disabled (state c)"
  then have "disabled (state (fst (c, fs)))" by simp
  then show "disabled (state (fst (happen_all (c, fs) hs)))"
    by (rule happen_all_disabled)
qed

theorem disabled_never_reset_witness:
  "disabled (state (snd (onSubmitClick_start
      (constructor \<lparr>action = Delete, commit_info = example_commit\<rparr>))))
   \<and> disabled (state (fst (happen_all
      (snd (onSubmitClick_start (constructor \<lparr>action = Delete, commit_info = example_commit\<rparr>)),
       [fst (onSubmitClick_start (constructor \<lparr>action = Delete, commit_info = example_commit\<rparr>))])
      [MessageChange ''Undo it'', Settle (Rejected (Converts ''Error: boom'')), SubmitClick,
       CancelClick, Settle Resolved])))"
proof -
  let ?fresh = "constructor \<lparr>action = Delete, commit_info = example_commit\<rparr>"
  let ?hs = "[MessageChange ''Undo it'', Settle (Rejected (Converts ''Error: boom'')),
       SubmitClick, CancelClick, Settle Resolved]"
  from disabled_never_reset [of "props ?fresh" ?fresh Resolved
      "fst (onSubmitClick_start ?fresh)" "''Undo it''" "[]" "[]"]
  have busy: "disabled (state (snd (onSubmitClick_start ?fresh)))"
    by simp
  from disabled_never_reset [of "props ?fresh" "snd (onSubmitClick_start ?fresh)" Resolved
      "fst (onSubmitClick_start ?fresh)" "''Undo it''" "[fst (onSubmitClick_start ?fresh)]" ?hs]
    busy
  show ?thesis by simp
qed

subsection \<open>The order of \<open>setState\<close> and the service call\<close>

text \<open>
  C9 (as amended). In a submission \<open>setState\<close> with \<open>disabled: true\<close> is the first call
  and the call on the repository service, the only one, comes after it. At the moment of
  the service call the update is only queued: the state, \<open>disabled\<close> included, is still the
  one found at the click. The update is merged when the handler returns at its \<open>await\<close>,
  so \<open>disabled\<close> is true from then on, before the service call settles, and the rest of the
  submission adds no further call on the service.
\<close>

theorem onSubmitClick_queues_disable_before_service:
  "take 1 (new_calls c (comp (snd (onSubmitClick_run (enter c))))) =
     [SetState \<lparr>upd_message = None, upd_disabled = Some True\<rparr>]
   \<and> is_service_call (last (new_calls c (comp (snd (onSubmitClick_run (enter c))))))
   \<and> length (filter is_service_call
        (new_calls c (comp (snd (onSubmitClick_run (enter c)))))) = 1
   \<and> queued (snd (onSubmitClick_run (enter c))) =
        [\<lparr>upd_message = None, upd_disabled = Some True\<rparr>]
   \<and> state (comp (snd (onSubmitClick_run (enter c)))) = state c
   \<and> disabled (state (snd (onSubmitClick_start c))) = True
   \<and> length (filter is_service_call (new_calls c (snd (onSubmitClick c r)))) = 1"
proof -
  have at_call: "new_calls c (comp (snd (onSubmitClick_run (enter c)))) =
     SetState \<lparr>upd_message = None, upd_disabled = Some True\<rparr> #
       (if action (props c) = Reset then [ResetToCommit (commit (commit_info (props c)))]
        else if message (state c) \<noteq> [] then
          [DeleteCommit (message (state c)) (commit (commit_info (props c)))]
        else [DefaultMessage,
              DeleteCommit (defaultMessage c) (commit (commit_info (props c)))])"
    by (rule new_calls_append) (simp add: onSubmitClick_run_calls enter_simps)
  have whole: "length (filter is_service_call (new_calls c (snd (onSubmitClick c r)))) = 1"
    by (cases r) (simp_all add: onSubmitClick_new_calls split: sum.splits)
  show ?thesis
    unfolding at_call using whole
    by (simp add: onSubmitClick_run_queued onSubmitClick_run_state enter_simps
        onSubmitClick_start_state)
qed

text \<open>
  C9 as stated fails: on a new reset instance the handler has called \<open>setState\<close> and then
  \<open>resetToCommit\<close>, and \<open>disabled\<close> is still false at that moment.
\<close>

theorem onSubmitClick_service_while_enabled_counterexample:
  "calls (comp (snd (onSubmitClick_run
      (enter (constructor \<lparr>action = Reset, commit_info = example_commit\<rparr>))))) =
     [SetState \<lparr>upd_message = None, upd_disabled = Some True\<rparr>,
      ResetToCommit ''abcdef1234567890'']
   \<and> disabled (state (comp (snd (onSubmitClick_run
      (enter (constructor \<lparr>action = Reset, commit_info = example_commit\<rparr>)))))) = False"
  by (simp add: onSubmitClick_run_calls onSubmitClick_run_state enter_simps constructor_def
      example_commit_def)

end
